theory Spec2Isabelle
  imports Main "HOL-Library.Sublist"
begin

section \<open>Python values used by DataTransferV1/main.py\<close>

text \<open>
  A Python \<open>str\<close> is a sequence of Unicode code points and \<open>len\<close> counts code points,
  so a string is a list of code points (\<open>nat\<close>); a \<open>bytes\<close> object is a list of byte
  values (\<open>nat\<close> below 256). \<open>lit\<close> turns an ASCII literal of the source into such a
  string.
\<close>

type_synonym pystr = "nat list"
type_synonym pybytes = "nat list"

definition lit :: "string \<Rightarrow> pystr" where
  "lit s = map of_char s"

text \<open>
  The exceptions the program can meet. All of them are subclasses of Python's
  \<open>Exception\<close>, so \<open>except Exception\<close> and a bare \<open>except\<close> catch each of them.
  \<open>OSError\<close> stands for whatever a peripheral driver raises.
\<close>

datatype exn =
    NameError string
  | UnboundLocalError string
  | OSError string
  | ValueError string
  | AttributeError string
  | UnicodeEncodeError

text \<open>A module-level or local name is either unbound or bound to a value.\<close>

datatype 'a binding = Unbound | Bound 'a

text \<open>Reading a module-level name, and reading a local of a function.\<close>

definition lookup :: "string \<Rightarrow> 'a binding \<Rightarrow> exn + 'a" where
  "lookup name b = (case b of Unbound \<Rightarrow> Inl (NameError name) | Bound v \<Rightarrow> Inr v)"

definition lookup_local :: "string \<Rightarrow> 'a binding \<Rightarrow> exn + 'a" where
  "lookup_local name b =
     (case b of Unbound \<Rightarrow> Inl (UnboundLocalError name) | Bound v \<Rightarrow> Inr v)"

subsection \<open>Substring test and \<open>str.strip\<close>\<close>

text \<open>\<open>contains needle hay\<close> is Python's \<open>needle in hay\<close> on strings.\<close>

fun contains :: "pystr \<Rightarrow> pystr \<Rightarrow> bool" where
  "contains needle [] = (needle = [])"
| "contains needle (h # hs) = (prefix needle (h # hs) \<or> contains needle hs)"

text \<open>The code points for which \<open>str.isspace\<close> holds; \<open>str.strip()\<close> removes them at both ends.\<close>

definition isspace :: "nat \<Rightarrow> bool" where
  "isspace c = ((9 \<le> c \<and> c \<le> 13) \<or> (28 \<le> c \<and> c \<le> 32) \<or> c = 133 \<or> c = 160
     \<or> c = 5760 \<or> (8192 \<le> c \<and> c \<le> 8202) \<or> c = 8232 \<or> c = 8233 \<or> c = 8239
     \<or> c = 8287 \<or> c = 12288)"

definition strip :: "pystr \<Rightarrow> pystr" where
  "strip s = rev (dropWhile isspace (rev (dropWhile isspace s)))"

subsection \<open>UTF-8\<close>

text \<open>
  \<open>bytes.decode('utf-8', 'ignore')\<close>: well-formed sequences become their code point, a
  byte that does not start a well-formed sequence is dropped and decoding resumes at the
  next byte. The function is total: with the \<open>ignore\<close> handler no input raises.
\<close>

definition is_cont :: "nat \<Rightarrow> bool" where
  "is_cont b = (128 \<le> b \<and> b < 192)"

definition second_ok3 :: "nat \<Rightarrow> nat \<Rightarrow> bool" where
  "second_ok3 b c = (if b = 224 then 160 \<le> c \<and> c < 192
                     else if b = 237 then 128 \<le> c \<and> c < 160
                     else is_cont c)"

definition second_ok4 :: "nat \<Rightarrow> nat \<Rightarrow> bool" where
  "second_ok4 b c = (if b = 240 then 144 \<le> c \<and> c < 192
                     else if b = 244 then 128 \<le> c \<and> c < 144
                     else is_cont c)"

fun utf8_decode_ignore :: "pybytes \<Rightarrow> pystr" where
  "utf8_decode_ignore [] = []"
| "utf8_decode_ignore (b # bs) =
     (if b < 128 then b # utf8_decode_ignore bs
      else if 194 \<le> b \<and> b < 224 then
        (case bs of
           c1 # r1 \<Rightarrow>
             if is_cont c1 then ((b - 192) * 64 + (c1 - 128)) # utf8_decode_ignore r1
             else utf8_decode_ignore bs
         | [] \<Rightarrow> [])
      else if 224 \<le> b \<and> b < 240 then
        (case bs of
           c1 # c2 # r2 \<Rightarrow>
             if second_ok3 b c1 \<and> is_cont c2
             then ((b - 224) * 4096 + (c1 - 128) * 64 + (c2 - 128)) # utf8_decode_ignore r2
             else utf8_decode_ignore bs
         | _ \<Rightarrow> utf8_decode_ignore bs)
      else if 240 \<le> b \<and> b < 245 then
        (case bs of
           c1 # c2 # c3 # r3 \<Rightarrow>
             if second_ok4 b c1 \<and> is_cont c2 \<and> is_cont c3
             then ((b - 240) * 262144 + (c1 - 128) * 4096 + (c2 - 128) * 64 + (c3 - 128))
                    # utf8_decode_ignore r3
             else utf8_decode_ignore bs
         | _ \<Rightarrow> utf8_decode_ignore bs)
      else utf8_decode_ignore bs)"

text \<open>
  \<open>str.encode()\<close>: UTF-8, raising \<open>UnicodeEncodeError\<close> on a surrogate code point
  (and on a number that is no code point at all).
\<close>

definition encode_cp :: "nat \<Rightarrow> exn + pybytes" where
  "encode_cp c =
     (if c < 128 then Inr [c]
      else if c < 2048 then Inr [192 + c div 64, 128 + c mod 64]
      else if c < 65536 then
        (if 55296 \<le> c \<and> c < 57344 then Inl UnicodeEncodeError
         else Inr [224 + c div 4096, 128 + (c div 64) mod 64, 128 + c mod 64])
      else if c < 1114112 then
        Inr [240 + c div 262144, 128 + (c div 4096) mod 64, 128 + (c div 64) mod 64,
             128 + c mod 64]
      else Inl UnicodeEncodeError)"

fun encode :: "pystr \<Rightarrow> exn + pybytes" where
  "encode [] = Inr []"
| "encode (c # cs) =
     (case encode_cp c of
        Inl x \<Rightarrow> Inl x
      | Inr bs \<Rightarrow> (case encode cs of Inl x \<Rightarrow> Inl x | Inr rest \<Rightarrow> Inr (bs @ rest)))"

subsection \<open>Numbers and their formatting\<close>

text \<open>\<open>str(n)\<close> for a Python int.\<close>

fun digits :: "nat \<Rightarrow> pystr" where
  "digits n = (if n < 10 then [48 + n] else digits (n div 10) @ [48 + n mod 10])"

declare digits.simps [simp del]

definition str_int :: "int \<Rightarrow> pystr" where
  "str_int i = (if i < 0 then lit ''-'' @ digits (nat (- i)) else digits (nat i))"

text \<open>
  A float is modelled by the decimal it denotes: \<open>Dec neg m e\<close> is
  \<open>(-1)^neg * m / 10^e\<close> (every finite binary float is such a decimal, and the sign
  is kept apart so that \<open>-0.0\<close> exists). The binary rounding of the hardware float is not
  modelled: \<open>round(x, 2)\<close> yields the two-place decimal itself, and the shortest
  representation Python prints for it is that decimal in positional notation (which is
  what \<open>repr\<close> gives for magnitudes between 1e-4 and 1e16; exponent notation, infinities
  and NaN are outside the model).
\<close>

datatype pyfloat = Dec bool nat nat

definition round_half_even :: "nat \<Rightarrow> nat \<Rightarrow> nat" where
  "round_half_even m d =
     (let q = m div d; r = m mod d
      in if 2 * r < d then q
         else if d < 2 * r then q + 1
         else if even q then q else q + 1)"

text \<open>\<open>scaled m e k\<close>: the decimal \<open>m / 10^e\<close> in units of \<open>10^-k\<close>, rounded half to even.\<close>

definition scaled :: "nat \<Rightarrow> nat \<Rightarrow> nat \<Rightarrow> nat" where
  "scaled m e k = round_half_even (m * 10 ^ k) (10 ^ e)"

definition zero_pad :: "nat \<Rightarrow> pystr \<Rightarrow> pystr" where
  "zero_pad k s = replicate (k - length s) 48 @ s"

definition sign_str :: "bool \<Rightarrow> pystr" where
  "sign_str neg = (if neg then lit ''-'' else [])"

text \<open>The format specification \<open>:.6f\<close> (and any \<open>:.kf\<close>).\<close>

definition format_f :: "nat \<Rightarrow> pyfloat \<Rightarrow> pystr" where
  "format_f k x =
     (case x of Dec neg m e \<Rightarrow>
        let n = scaled m e k
        in sign_str neg @ digits (n div 10 ^ k)
           @ (if k = 0 then [] else lit ''.'' @ zero_pad k (digits (n mod 10 ^ k))))"

text \<open>\<open>round(x, 2)\<close> on a float: again a float, the sign kept.\<close>

definition round2 :: "pyfloat \<Rightarrow> pyfloat" where
  "round2 x = (case x of Dec neg m e \<Rightarrow> Dec neg (scaled m e 2) 2)"

text \<open>
  \<open>repr\<close> of a float, which is what an f-string field without format specification
  prints: the integer part, a point, and the fraction without trailing zeros (at least
  one digit).
\<close>

definition strip_zeros :: "pystr \<Rightarrow> pystr" where
  "strip_zeros s = (let t = rev (dropWhile (\<lambda>c. c = 48) (rev s)) in if t = [] then [48] else t)"

definition repr_float :: "pyfloat \<Rightarrow> pystr" where
  "repr_float x =
     (case x of Dec neg m e \<Rightarrow>
        sign_str neg @ digits (m div 10 ^ e) @ lit ''.''
        @ strip_zeros (zero_pad e (digits (m mod 10 ^ e))))"

text \<open>The objects a telemetry field can hold, and \<open>str()\<close> of them as an f-string prints it.\<close>

datatype pyval = PNone | PFloat pyfloat

definition str_val :: "pyval \<Rightarrow> pystr" where
  "str_val v = (case v of PNone \<Rightarrow> lit ''None'' | PFloat x \<Rightarrow> repr_float x)"

definition str_opt :: "pystr option \<Rightarrow> pystr" where
  "str_opt v = (case v of None \<Rightarrow> lit ''None'' | Some s \<Rightarrow> s)"

section \<open>Peripherals and program state\<close>

text \<open>
  The module-level names of main.py that carry state from one statement to the next, the
  log file on the SD card and the bytes written to the transmitter UART. Calls of
  \<open>time.sleep\<close> change none of these and are left out, and so are the calls of \<open>print\<close>
  outside \<open>send_cmd\<close>; the three of \<open>send_cmd\<close>, one of them inside its \<open>try\<close>, are
  modelled.
\<close>

datatype handle = UART nat | BMP390 | SDCard

record state =
  TRANSMITTER_INITIALIZED :: bool
  GPS_INITIALIZED :: bool
  BMP_INITIALIZED :: bool
  SD_INITIALIZED :: bool
  uart_transmitter :: "handle binding"
  gps :: "handle binding"
  bmp :: "handle option binding"
  sd_card :: "handle option binding"
  packet :: int
  pressure :: "pyval binding"
  altitude :: "pyval binding"
  gps_data :: "pystr option binding"
  flight_data :: pystr
  radio_out :: "pybytes list"

text \<open>
  The module before its first statement runs: the four flags are \<open>False\<close> (lines 8-11),
  no other name is bound; \<open>file0\<close> is what /sd/flight_data.txt holds already.
\<close>

definition module_state :: "pystr \<Rightarrow> state" where
  "module_state file0 =
     \<lparr>TRANSMITTER_INITIALIZED = False, GPS_INITIALIZED = False, BMP_INITIALIZED = False,
      SD_INITIALIZED = False, uart_transmitter = Unbound, gps = Unbound, bmp = Unbound,
      sd_card = Unbound, packet = 0, pressure = Unbound, altitude = Unbound,
      gps_data = Unbound, flight_data = file0, radio_out = []\<rparr>"

text \<open>
  What a UART does when the program calls it once: \<open>write\<close> raises or not, \<open>any()\<close>
  raises or gives the number of waiting bytes, \<open>read()\<close> raises or gives bytes or \<open>None\<close>.
\<close>

record uart_io =
  write_result :: "exn option"
  any_result :: "exn + nat"
  read_result :: "exn + pybytes option"

text \<open>The structure \<open>gps_parser.parse_gps_data\<close> returns (the parser is not part of main.py).\<close>

record gps_parsed =
  has_fix :: bool
  latitude :: pyfloat
  longitude :: pyfloat
  satellites :: int
  time :: pystr

section \<open>Initialisers (lines 15-89)\<close>

text \<open>
  \<open>init_transmitter\<close>: the local \<open>uart_transmitter\<close> is bound only when
  \<open>machine.UART\<close> returns; the \<open>return\<close> after the \<open>try\<close> statement reads it either way.
\<close>

definition init_transmitter :: "exn option \<Rightarrow> state \<Rightarrow> (exn + handle) \<times> state" where
  "init_transmitter ctor s =
     (let (local_uart, s') =
        (case ctor of
           None \<Rightarrow> (Bound (UART 0), s\<lparr>TRANSMITTER_INITIALIZED := True\<rparr>)
         | Some x \<Rightarrow> (Unbound, s\<lparr>TRANSMITTER_INITIALIZED := False\<rparr>))
      in (lookup_local ''uart_transmitter'' local_uart, s'))"

definition init_gps :: "exn option \<Rightarrow> state \<Rightarrow> (exn + handle) \<times> state" where
  "init_gps ctor s =
     (let (local_gps, s') =
        (case ctor of
           None \<Rightarrow> (Bound (UART 1), s\<lparr>GPS_INITIALIZED := True\<rparr>)
         | Some x \<Rightarrow> (Unbound, s\<lparr>GPS_INITIALIZED := False\<rparr>))
      in (lookup_local ''gps_module'' local_gps, s'))"

text \<open>
  \<open>init_bmp\<close> binds its local to \<open>None\<close> before the \<open>try\<close> statement. \<open>ctor\<close> is the
  construction of the I2C bus and of the sensor object, \<open>config\<close> the assignment of
  \<open>sea_level_pressure\<close>.
\<close>

definition init_bmp :: "exn option \<Rightarrow> exn option \<Rightarrow> state \<Rightarrow> (exn + handle option) \<times> state" where
  "init_bmp ctor config s =
     (let (local_bmp, s') =
        (case ctor of
           Some x \<Rightarrow> (Bound None, s\<lparr>BMP_INITIALIZED := False\<rparr>)
         | None \<Rightarrow>
             (case config of
                Some x \<Rightarrow> (Bound (Some BMP390), s\<lparr>BMP_INITIALIZED := False\<rparr>)
              | None \<Rightarrow> (Bound (Some BMP390), s\<lparr>BMP_INITIALIZED := True\<rparr>)))
      in (lookup_local ''bmp'' local_bmp, s'))"

definition header_line :: pystr where
  "header_line = [10, 10] @ lit ''Timestamp#Altitude#Latitude#Longitude#GPS_Time|'' @ [10]"

text \<open>
  \<open>init_sd_card\<close>: \<open>mount\<close> is everything up to \<open>os.mount\<close>, \<open>header\<close> the write of the
  header line (which happens after the flag is set, inside the same \<open>try\<close>).
\<close>

definition init_sd_card :: "exn option \<Rightarrow> exn option \<Rightarrow> state \<Rightarrow> (exn + handle option) \<times> state" where
  "init_sd_card mount header s =
     (case mount of
        Some x \<Rightarrow> (Inr None, s\<lparr>SD_INITIALIZED := False\<rparr>)
      | None \<Rightarrow>
          (let s1 = s\<lparr>SD_INITIALIZED := True\<rparr>
           in case header of
                Some x \<Rightarrow> (Inr None, s1\<lparr>SD_INITIALIZED := False\<rparr>)
              | None \<Rightarrow> (Inr (Some SDCard), s1\<lparr>flight_data := flight_data s1 @ header_line\<rparr>)))"

section \<open>\<open>write_to_sd\<close> (lines 93-104)\<close>

text \<open>\<open>io\<close> is what opening the file and writing to it does: raise, or append.\<close>

definition write_to_sd :: "exn option \<Rightarrow> pystr \<Rightarrow> state \<Rightarrow> (exn + bool) \<times> state" where
  "write_to_sd io data_line s =
     (if \<not> SD_INITIALIZED s then (Inr False, s)
      else
        (case io of
           None \<Rightarrow> (Inr True, s\<lparr>flight_data := flight_data s @ data_line @ lit ''|''\<rparr>)
         | Some x \<Rightarrow> (Inr False, s)))"

section \<open>\<open>get_gps_data\<close> (lines 114-146)\<close>

text \<open>
  One iteration of the polling loop. An exception of \<open>any()\<close> leaves the loop (it is
  outside the inner \<open>try\<close>); an exception of \<open>read()\<close> is passed over by the inner bare
  \<open>except\<close>.
\<close>

definition gps_poll :: "uart_io \<Rightarrow> pystr \<Rightarrow> exn + pystr" where
  "gps_poll io raw_data =
     (case any_result io of
        Inl x \<Rightarrow> Inl x
      | Inr n \<Rightarrow>
          if n \<noteq> 0 then
            (case read_result io of
               Inl x \<Rightarrow> Inr raw_data
             | Inr None \<Rightarrow> Inr raw_data
             | Inr (Some chunk) \<Rightarrow>
                 if chunk \<noteq> [] then Inr (raw_data @ utf8_decode_ignore chunk)
                 else Inr raw_data)
          else Inr raw_data)"

text \<open>\<open>for _ in range(6)\<close>: \<open>polls i\<close> is what the UART does in iteration \<open>i\<close>.\<close>

fun gps_loop :: "(nat \<Rightarrow> uart_io) \<Rightarrow> nat list \<Rightarrow> pystr \<Rightarrow> exn + pystr" where
  "gps_loop polls [] raw_data = Inr raw_data"
| "gps_loop polls (i # rest) raw_data =
     (case gps_poll (polls i) raw_data of
        Inl x \<Rightarrow> Inl x
      | Inr raw' \<Rightarrow> gps_loop polls rest raw')"

definition format_fix :: "gps_parsed \<Rightarrow> pystr" where
  "format_fix d =
     format_f 6 (latitude d) @ lit ''#'' @ format_f 6 (longitude d) @ lit ''#'' @ time d"

text \<open>The body of the outer \<open>try\<close>, and the function with its \<open>except Exception\<close>.\<close>

definition gps_body :: "(nat \<Rightarrow> uart_io) \<Rightarrow> (pystr \<Rightarrow> exn + gps_parsed) \<Rightarrow> exn + pystr option" where
  "gps_body polls parse_gps_data =
     (case gps_loop polls [0..<6] [] of
        Inl x \<Rightarrow> Inl x
      | Inr raw_data \<Rightarrow>
          if length raw_data > 0 then
            (case parse_gps_data raw_data of
               Inl x \<Rightarrow> Inl x
             | Inr d \<Rightarrow> if has_fix d then Inr (Some (format_fix d)) else Inr None)
          else Inr None)"

definition get_gps_data :: "(nat \<Rightarrow> uart_io) \<Rightarrow> (pystr \<Rightarrow> exn + gps_parsed) \<Rightarrow> exn + pystr option" where
  "get_gps_data polls parse_gps_data =
     (case gps_body polls parse_gps_data of
        Inl x \<Rightarrow> Inr None
      | Inr r \<Rightarrow> Inr r)"

section \<open>\<open>send_cmd\<close> (lines 161-182)\<close>

text \<open>
  What the transmitter UART and the console do during one call: the UART as above, and
  for each of the three debug prints whether it raises (\<open>Sending: ...\<close> at line 163,
  \<open>Response: ...\<close> at line 174 inside the \<open>try\<close>, \<open>Decode error, ...\<close> at line 178 inside
  the handler).
\<close>

record cmd_io = uart_io +
  print_sending :: "exn option"
  print_response :: "exn option"
  print_raw :: "exn option"

text \<open>
  The body of the \<open>try\<close> (lines 172-175): the response is decoded and stripped, printed
  when \<open>debug\<close> is set, and returned.
\<close>

definition response_body :: "cmd_io \<Rightarrow> bool \<Rightarrow> pybytes \<Rightarrow> exn + pystr" where
  "response_body io debug response =
     (let decoded = strip (utf8_decode_ignore response)
      in case (if debug then print_response io else None) of
           Some x \<Rightarrow> Inl x
         | None \<Rightarrow> Inr decoded)"

text \<open>The handler (lines 176-179): a print when \<open>debug\<close> is set, then \<open>return None\<close>.\<close>

definition response_handler :: "cmd_io \<Rightarrow> bool \<Rightarrow> exn + pystr option" where
  "response_handler io debug =
     (case (if debug then print_raw io else None) of
        Some x \<Rightarrow> Inl x
      | None \<Rightarrow> Inr None)"

definition send_cmd ::
  "cmd_io \<Rightarrow> pystr \<Rightarrow> bool \<Rightarrow> bool \<Rightarrow> state \<Rightarrow> (exn + pystr option) \<times> state" where
  "send_cmd io cmd wait_response debug s =
     (case (if debug then print_sending io else None) of
        Some x \<Rightarrow> (Inl x, s)
      | None \<Rightarrow>
     (case encode (cmd @ [13, 10]) of
        Inl x \<Rightarrow> (Inl x, s)
      | Inr line \<Rightarrow>
          (case write_result io of
             Some x \<Rightarrow> (Inl x, s)
           | None \<Rightarrow>
               (let s1 = s\<lparr>radio_out := radio_out s @ [line]\<rparr>
                in if wait_response then
                     (case any_result io of
                        Inl x \<Rightarrow> (Inl x, s1)
                      | Inr n \<Rightarrow>
                          if n \<noteq> 0 then
                            (case read_result io of
                               Inl x \<Rightarrow> (Inl x, s1)
                             | Inr None \<Rightarrow> (Inr None, s1)
                             | Inr (Some response) \<Rightarrow>
                                 if response \<noteq> [] then
                                   (case response_body io debug response of
                                      Inl x \<Rightarrow> (response_handler io debug, s1)
                                    | Inr decoded \<Rightarrow> (Inr (Some decoded), s1))
                                 else (Inr None, s1))
                          else (Inr None, s1))
                   else (Inr None, s1)))))"

section \<open>Acknowledgement check of the main loop (line 244)\<close>

text \<open>
  \<open>if response and ("+OK" in response or response == "OK")\<close>: \<open>None\<close> and the empty
  string are falsy.
\<close>

definition acknowledged :: "pystr option \<Rightarrow> bool" where
  "acknowledged response =
     (case response of
        None \<Rightarrow> False
      | Some r \<Rightarrow> r \<noteq> [] \<and> (contains (lit ''+OK'') r \<or> r = lit ''OK''))"

section \<open>Start-up (lines 153-207)\<close>

text \<open>
  A command to the transmitter: the name \<open>uart_transmitter\<close> is read, then \<open>send_cmd\<close> runs
  (with \<open>wait_response=True\<close> and \<open>debug=True\<close> at every call in main.py).
\<close>

definition radio_cmd :: "cmd_io \<Rightarrow> pystr \<Rightarrow> state \<Rightarrow> (exn + pystr option) \<times> state" where
  "radio_cmd io cmd s =
     (case lookup ''uart_transmitter'' (uart_transmitter s) of
        Inl x \<Rightarrow> (Inl x, s)
      | Inr h \<Rightarrow> send_cmd io cmd True True s)"

definition config_commands :: "pystr list" where
  "config_commands =
     [lit ''AT'', lit ''AT+RESET'', lit ''AT+ADDRESS=1'', lit ''AT+NETWORKID=18'',
      lit ''AT+BAND=915000000'', lit ''AT+PARAMETER=10,8,1,12'']"

fun send_all :: "(nat \<Rightarrow> cmd_io) \<Rightarrow> nat \<Rightarrow> pystr list \<Rightarrow> state \<Rightarrow> (exn + unit) \<times> state" where
  "send_all io i [] s = (Inr (), s)"
| "send_all io i (c # cs) s =
     (case radio_cmd (io i) c s of
        (Inl x, s') \<Rightarrow> (Inl x, s')
      | (Inr r, s') \<Rightarrow> send_all io (Suc i) cs s')"

record startup_env =
  tx_ctor0 :: "exn option"
  gps_ctor0 :: "exn option"
  bmp_ctor0 :: "exn option"
  bmp_config0 :: "exn option"
  sd_mount0 :: "exn option"
  sd_header0 :: "exn option"
  bmp_config1 :: "exn option"
  config_io :: "nat \<Rightarrow> cmd_io"

text \<open>
  The module-level statements before the loop. An exception that leaves one of them ends
  the process, so nothing after it runs.
\<close>

definition startup :: "startup_env \<Rightarrow> state \<Rightarrow> (exn + unit) \<times> state" where
  "startup e s0 =
     (case init_transmitter (tx_ctor0 e) s0 of
        (Inl x, s1) \<Rightarrow> (Inl x, s1)
      | (Inr h, s1) \<Rightarrow>
     (case init_gps (gps_ctor0 e) (s1\<lparr>uart_transmitter := Bound h\<rparr>) of
        (Inl x, s2) \<Rightarrow> (Inl x, s2)
      | (Inr g, s2) \<Rightarrow>
     (case init_bmp (bmp_ctor0 e) (bmp_config0 e) (s2\<lparr>gps := Bound g\<rparr>) of
        (Inl x, s3) \<Rightarrow> (Inl x, s3)
      | (Inr b, s3) \<Rightarrow>
     (case init_sd_card (sd_mount0 e) (sd_header0 e) (s3\<lparr>bmp := Bound b\<rparr>) of
        (Inl x, s4) \<Rightarrow> (Inl x, s4)
      | (Inr c, s4) \<Rightarrow>
     (let s5 = s4\<lparr>sd_card := Bound c\<rparr>
      in case (if BMP_INITIALIZED s5 then bmp_config1 e else None) of
           Some x \<Rightarrow> (Inl x, s5)
         | None \<Rightarrow>
             (case send_all (config_io e) 0 config_commands s5 of
                (Inl x, s6) \<Rightarrow> (Inl x, s6)
              | (Inr u, s6) \<Rightarrow> (Inr (), s6\<lparr>packet := 0\<rparr>)))))))"

section \<open>One cycle of the loop (lines 208-247)\<close>

text \<open>What the peripherals do during one cycle.\<close>

record cycle_env =
  tx_ctor :: "exn option"
  bmp_altitude :: "exn + pyfloat"
  bmp_pressure :: "exn + pyfloat"
  gps_polls :: "nat \<Rightarrow> uart_io"
  parse_gps_data :: "pystr \<Rightarrow> exn + gps_parsed"
  sd_append :: "exn option"
  radio :: cmd_io

text \<open>Lines 212-215.\<close>

definition retry_transmitter :: "cycle_env \<Rightarrow> state \<Rightarrow> (exn + unit) \<times> state" where
  "retry_transmitter e s =
     (if \<not> TRANSMITTER_INITIALIZED s then
        (case init_transmitter (tx_ctor e) s of
           (Inl x, s') \<Rightarrow> (Inl x, s')
         | (Inr h, s') \<Rightarrow> (Inr (), s'\<lparr>uart_transmitter := Bound h\<rparr>))
      else (Inr (), s))"

text \<open>Lines 218-223. The \<open>else\<close> branch assigns \<open>altitude\<close> only.\<close>

definition read_bmp :: "cycle_env \<Rightarrow> state \<Rightarrow> (exn + unit) \<times> state" where
  "read_bmp e s =
     (if BMP_INITIALIZED s then
        (case lookup ''bmp'' (bmp s) of
           Inl x \<Rightarrow> (Inl x, s)
         | Inr None \<Rightarrow> (Inl (AttributeError ''altitude''), s)
         | Inr (Some h) \<Rightarrow>
             (case bmp_altitude e of
                Inl x \<Rightarrow> (Inl x, s)
              | Inr a \<Rightarrow>
                  (let s1 = s\<lparr>altitude := Bound (PFloat (round2 a))\<rparr>
                   in case bmp_pressure e of
                        Inl x \<Rightarrow> (Inl x, s1)
                      | Inr p \<Rightarrow> (Inr (), s1\<lparr>pressure := Bound (PFloat (round2 p))\<rparr>))))
      else (Inr (), s\<lparr>altitude := Bound PNone\<rparr>))"

text \<open>Lines 226-229.\<close>

definition read_gps :: "cycle_env \<Rightarrow> state \<Rightarrow> (exn + unit) \<times> state" where
  "read_gps e s =
     (if GPS_INITIALIZED s then
        (case lookup ''gps'' (gps s) of
           Inl x \<Rightarrow> (Inl x, s)
         | Inr h \<Rightarrow>
             (case get_gps_data (gps_polls e) (parse_gps_data e) of
                Inl x \<Rightarrow> (Inl x, s)
              | Inr g \<Rightarrow> (Inr (), s\<lparr>gps_data := Bound g\<rparr>)))
      else (Inr (), s\<lparr>gps_data := Bound None\<rparr>))"

text \<open>
  The values the f-string of line 233 reads, in its order: \<open>packet\<close>, \<open>pressure\<close>,
  \<open>altitude\<close>, \<open>gps_data\<close>. They are the telemetry record of the cycle.
\<close>

record telemetry =
  sequence :: int
  rec_pressure :: pyval
  rec_altitude :: pyval
  rec_gps_data :: "pystr option"

definition read_fields :: "state \<Rightarrow> exn + telemetry" where
  "read_fields s =
     (case lookup ''pressure'' (pressure s) of
        Inl x \<Rightarrow> Inl x
      | Inr p \<Rightarrow>
          (case lookup ''altitude'' (altitude s) of
             Inl x \<Rightarrow> Inl x
           | Inr a \<Rightarrow>
               (case lookup ''gps_data'' (gps_data s) of
                  Inl x \<Rightarrow> Inl x
                | Inr g \<Rightarrow>
                    Inr \<lparr>sequence = packet s, rec_pressure = p, rec_altitude = a,
                         rec_gps_data = g\<rparr>)))"

text \<open>Line 233: \<open>f"{packet}#{pressure}#{altitude}#{gps_data}"\<close>.\<close>

definition format_msg :: "telemetry \<Rightarrow> pystr" where
  "format_msg t =
     str_int (sequence t) @ lit ''#'' @ str_val (rec_pressure t) @ lit ''#''
     @ str_val (rec_altitude t) @ lit ''#'' @ str_opt (rec_gps_data t)"

text \<open>
  Line 238: \<open>f"{packet}#{pressure}#{altitude}#{gps_data if gps_data else 'None'}"\<close>;
  \<open>None\<close> and the empty string are falsy.
\<close>

definition format_sd_line :: "telemetry \<Rightarrow> pystr" where
  "format_sd_line t =
     str_int (sequence t) @ lit ''#'' @ str_val (rec_pressure t) @ lit ''#''
     @ str_val (rec_altitude t) @ lit ''#''
     @ (case rec_gps_data t of
          None \<Rightarrow> lit ''None''
        | Some g \<Rightarrow> if g \<noteq> [] then g else lit ''None'')"

text \<open>Lines 209-233: the counter, the retry, the reads and the assembly.\<close>

definition acquire :: "cycle_env \<Rightarrow> state \<Rightarrow> (exn + telemetry) \<times> state" where
  "acquire e s0 =
     (let s1 = s0\<lparr>packet := packet s0 + 1\<rparr>
      in case retry_transmitter e s1 of
           (Inl x, s2) \<Rightarrow> (Inl x, s2)
         | (Inr u, s2) \<Rightarrow>
             (case read_bmp e s2 of
                (Inl x, s3) \<Rightarrow> (Inl x, s3)
              | (Inr u, s3) \<Rightarrow>
                  (case read_gps e s3 of
                     (Inl x, s4) \<Rightarrow> (Inl x, s4)
                   | (Inr u, s4) \<Rightarrow> (read_fields s4, s4))))"

text \<open>What a completed cycle produced.\<close>

record cycle_out =
  tele :: telemetry
  msg :: pystr
  sd_line :: pystr
  logged :: bool
  response :: "pystr option"
  sent :: bool

text \<open>Lines 243-245: the transmit step.\<close>

definition transmit :: "cycle_env \<Rightarrow> telemetry \<Rightarrow> bool \<Rightarrow> state \<Rightarrow> (exn + cycle_out) \<times> state" where
  "transmit e t ok s =
     (let m = format_msg t
      in case radio_cmd (radio e)
                (lit ''AT+SEND=2,'' @ str_int (int (length m)) @ lit '','' @ m) s of
           (Inl x, s') \<Rightarrow> (Inl x, s')
         | (Inr r, s') \<Rightarrow>
             (Inr \<lparr>tele = t, msg = m, sd_line = format_sd_line t, logged = ok,
                   response = r, sent = acknowledged r\<rparr>, s'))"

text \<open>Lines 238-245: the storage step, then the transmit step.\<close>

definition log_and_transmit :: "cycle_env \<Rightarrow> telemetry \<Rightarrow> state \<Rightarrow> (exn + cycle_out) \<times> state" where
  "log_and_transmit e t s =
     (case write_to_sd (sd_append e) (format_sd_line t) s of
        (Inl x, s') \<Rightarrow> (Inl x, s')
      | (Inr ok, s') \<Rightarrow> transmit e t ok s')"

definition cycle :: "cycle_env \<Rightarrow> state \<Rightarrow> (exn + cycle_out) \<times> state" where
  "cycle e s =
     (case acquire e s of
        (Inl x, s') \<Rightarrow> (Inl x, s')
      | (Inr t, s') \<Rightarrow> log_and_transmit e t s')"

text \<open>
  \<open>while True\<close>: the loop has no exit of its own, so a run is given by what the
  peripherals do in its first cycles, one \<open>cycle_env\<close> each. The run yields the outputs of
  the completed cycles, the exception that ended the process (if one did) and the state.
\<close>

fun run_loop :: "cycle_env list \<Rightarrow> state \<Rightarrow> cycle_out list \<times> exn option \<times> state" where
  "run_loop [] s = ([], None, s)"
| "run_loop (e # es) s =
     (case cycle e s of
        (Inl x, s') \<Rightarrow> ([], Some x, s')
      | (Inr out, s') \<Rightarrow>
          (case run_loop es s' of (outs, r, s'') \<Rightarrow> (out # outs, r, s'')))"

section \<open>Concrete peripherals\<close>

text \<open>A UART that accepts writes and has nothing to read.\<close>

definition quiet_uart :: uart_io where
  "quiet_uart = \<lparr>write_result = None, any_result = Inr 0, read_result = Inr None\<rparr>"

text \<open>A UART that accepts writes and answers with the given bytes.\<close>

definition answering_uart :: "pybytes \<Rightarrow> uart_io" where
  "answering_uart bs =
     \<lparr>write_result = None, any_result = Inr (length bs), read_result = Inr (Some bs)\<rparr>"

text \<open>A transmitter whose prints do not raise: silent, or answering with the given bytes.\<close>

definition quiet_radio :: cmd_io where
  "quiet_radio =
     \<lparr>write_result = None, any_result = Inr 0, read_result = Inr None,
      print_sending = None, print_response = None, print_raw = None\<rparr>"

definition answering_radio :: "pybytes \<Rightarrow> cmd_io" where
  "answering_radio bs =
     \<lparr>write_result = None, any_result = Inr (length bs), read_result = Inr (Some bs),
      print_sending = None, print_response = None, print_raw = None\<rparr>"

text \<open>A start-up in which every peripheral comes up, and one without the barometer.\<close>

definition startup_all_ok :: startup_env where
  "startup_all_ok =
     \<lparr>tx_ctor0 = None, gps_ctor0 = None, bmp_ctor0 = None, bmp_config0 = None,
      sd_mount0 = None, sd_header0 = None, bmp_config1 = None,
      config_io = (\<lambda>i. quiet_radio)\<rparr>"

definition startup_no_bmp :: startup_env where
  "startup_no_bmp = startup_all_ok\<lparr>bmp_ctor0 := Some (OSError ''ENODEV'')\<rparr>"

definition startup_no_sd :: startup_env where
  "startup_no_sd = startup_all_ok\<lparr>sd_mount0 := Some (OSError ''no SD card'')\<rparr>"

definition startup_no_radio :: startup_env where
  "startup_no_radio = startup_all_ok\<lparr>tx_ctor0 := Some (ValueError ''bad pin'')\<rparr>"

text \<open>
  The state at the loop's entry after \<open>startup_all_ok\<close> on an empty card (the bytes
  already sent to the radio left out).
\<close>

definition ready :: state where
  "ready =
     \<lparr>TRANSMITTER_INITIALIZED = True, GPS_INITIALIZED = True, BMP_INITIALIZED = True,
      SD_INITIALIZED = True, uart_transmitter = Bound (UART 0), gps = Bound (UART 1),
      bmp = Bound (Some BMP390), sd_card = Bound (Some SDCard), packet = 0,
      pressure = Unbound, altitude = Unbound, gps_data = Unbound,
      flight_data = header_line, radio_out = []\<rparr>"

definition ready_no_bmp :: state where
  "ready_no_bmp = ready\<lparr>BMP_INITIALIZED := False, bmp := Bound None\<rparr>"

definition ready_no_sd :: state where
  "ready_no_sd = ready\<lparr>SD_INITIALIZED := False, sd_card := Bound None, flight_data := []\<rparr>"

text \<open>A parser that reports the fix of the end-to-end scenario, and one that reports none.\<close>

definition fix_parsed :: gps_parsed where
  "fix_parsed =
     \<lparr>has_fix = True, latitude = Dec False 12345678 6, longitude = Dec True 98765432 6,
      satellites = 7, time = lit ''123519''\<rparr>"

definition env_quiet :: cycle_env where
  "env_quiet =
     \<lparr>tx_ctor = None, bmp_altitude = Inr (Dec False 12345 2),
      bmp_pressure = Inr (Dec False 101325 2), gps_polls = (\<lambda>i. quiet_uart),
      parse_gps_data = (\<lambda>raw. Inr (fix_parsed\<lparr>has_fix := False\<rparr>)), sd_append = None,
      radio = quiet_radio\<rparr>"

text \<open>A cycle in which the GPS delivers a sentence with a fix and the radio answers \<open>+OK\<close>.\<close>

definition env_fix :: cycle_env where
  "env_fix =
     env_quiet\<lparr>gps_polls := (\<lambda>i. if i = 0 then answering_uart (lit ''$GPRMC'') else quiet_uart),
               parse_gps_data := (\<lambda>raw. Inr fix_parsed),
               radio := answering_radio (lit ''+OK'' @ [13, 10])\<rparr>"

text \<open>Cycles in which one peripheral raises.\<close>

definition env_bmp_fails :: cycle_env where
  "env_bmp_fails = env_quiet\<lparr>bmp_altitude := Inl (OSError ''EIO'')\<rparr>"

definition env_radio_fails :: cycle_env where
  "env_radio_fails = env_quiet\<lparr>radio := quiet_radio\<lparr>write_result := Some (OSError ''EIO'')\<rparr>\<rparr>"

definition env_sd_fails :: cycle_env where
  "env_sd_fails = env_quiet\<lparr>sd_append := Some (OSError ''EIO'')\<rparr>"

definition env_gps_fails :: cycle_env where
  "env_gps_fails =
     env_quiet\<lparr>gps_polls := (\<lambda>i. quiet_uart\<lparr>any_result := Inl (OSError ''EIO'')\<rparr>)\<rparr>"

section \<open>Auxiliary facts\<close>

subsection \<open>Evaluation on concrete inputs\<close>

lemma digits_numeral:
  "digits (numeral k) =
     (if (numeral k :: nat) < 10 then [48 + numeral k]
      else digits (numeral k div 10) @ [48 + numeral k mod 10])"
  by (rule digits.simps)

lemma digits_small: "digits 0 = [48]" "digits (Suc 0) = [49]"
  by (simp_all add: digits.simps)

lemma Suc_Suc_0: "Suc (Suc 0) = 2"
  by simp

lemmas eval_fmt = Suc_Suc_0 digits_numeral digits_small str_int_def lit_def sign_str_def
  zero_pad_def format_f_def repr_float_def round2_def scaled_def round_half_even_def
  strip_zeros_def str_val_def str_opt_def

lemmas eval_cycle = cycle_def acquire_def log_and_transmit_def transmit_def
  retry_transmitter_def read_bmp_def read_gps_def read_fields_def format_msg_def
  format_sd_line_def write_to_sd_def radio_cmd_def send_cmd_def get_gps_data_def gps_body_def
  gps_poll_def format_fix_def init_transmitter_def lookup_def lookup_local_def
  response_body_def response_handler_def acknowledged_def strip_def isspace_def is_cont_def encode_cp_def Let_def
  upt_rec

lemmas eval_env = env_quiet_def env_fix_def env_bmp_fails_def env_radio_fails_def
  env_sd_fails_def env_gps_fails_def quiet_uart_def answering_uart_def quiet_radio_def
  answering_radio_def fix_parsed_def ready_def
  ready_no_bmp_def ready_no_sd_def

lemmas eval_startup = startup_def startup_all_ok_def startup_no_bmp_def startup_no_sd_def
  startup_no_radio_def module_state_def init_transmitter_def init_gps_def init_bmp_def
  init_sd_card_def lookup_local_def lookup_def config_commands_def radio_cmd_def send_cmd_def
  quiet_radio_def response_body_def response_handler_def lit_def encode_cp_def Let_def

text \<open>
  The concrete states are the ones the start-up reaches (up to the configuration commands
  already written to the radio).
\<close>

lemma startup_states:
  "fst (startup startup_all_ok (module_state [])) = Inr ()"
  "(snd (startup startup_all_ok (module_state [])))\<lparr>radio_out := []\<rparr> = ready"
  "fst (startup startup_no_sd (module_state [])) = Inr ()"
  "(snd (startup startup_no_sd (module_state [])))\<lparr>radio_out := []\<rparr> = ready_no_sd"
  "fst (startup startup_no_bmp (module_state [])) = Inr ()"
  "(snd (startup startup_no_bmp (module_state [])))\<lparr>radio_out := []\<rparr> = ready_no_bmp"
  by (simp_all add: eval_startup eval_env)

lemma startup_all_ok_state:
  "\<exists>sent0. startup startup_all_ok (module_state []) = (Inr (), ready\<lparr>radio_out := sent0\<rparr>)"
proof -
  let ?S = "startup startup_all_ok (module_state [])"
  have f: "fst ?S = Inr ()" by (rule startup_states(1))
  have r: "(snd ?S)\<lparr>radio_out := []\<rparr> = ready" by (rule startup_states(2))
  have "ready\<lparr>radio_out := radio_out (snd ?S)\<rparr> = snd ?S"
    unfolding r[symmetric] by simp
  with f have "?S = (Inr (), ready\<lparr>radio_out := radio_out (snd ?S)\<rparr>)"
    by (metis prod.collapse)
  then show ?thesis by blast
qed

subsection \<open>Substrings\<close>

lemma contains_iff: "contains n h \<longleftrightarrow> (\<exists>p q. h = p @ n @ q)"
proof (induction h)
  case Nil
  then show ?case by auto
next
  case (Cons a h)
  show ?case
  proof
    assume "contains n (a # h)"
    then consider "prefix n (a # h)" | "contains n h" by auto
    then show "\<exists>p q. a # h = p @ n @ q"
    proof cases
      case 1
      then obtain q where "a # h = n @ q" by (auto simp: prefix_def)
      then have "a # h = [] @ n @ q" by simp
      then show ?thesis by blast
    next
      case 2
      with Cons.IH obtain p q where "h = p @ n @ q" by blast
      then have "a # h = (a # p) @ n @ q" by simp
      then show ?thesis by blast
    qed
  next
    assume "\<exists>p q. a # h = p @ n @ q"
    then obtain p q where pq: "a # h = p @ n @ q" by blast
    show "contains n (a # h)"
    proof (cases p)
      case Nil
      with pq have "prefix n (a # h)" by (simp add: prefix_def)
      then show ?thesis by simp
    next
      case (Cons b p')
      with pq have "h = p' @ n @ q" by simp
      with Cons.IH have "contains n h" by blast
      then show ?thesis by simp
    qed
  qed
qed

subsection \<open>What each step leaves unchanged\<close>

lemma send_cmd_keeps:
  "send_cmd io cmd w dbg s = (r, s') \<Longrightarrow>
     packet s' = packet s \<and> flight_data s' = flight_data s"
  by (auto simp: send_cmd_def Let_def split: sum.splits option.splits if_splits)

lemma radio_cmd_keeps:
  "radio_cmd io cmd s = (r, s') \<Longrightarrow>
     packet s' = packet s \<and> flight_data s' = flight_data s"
  by (auto simp: radio_cmd_def split: sum.splits dest: send_cmd_keeps)

lemma transmit_keeps:
  "transmit e t ok s = (r, s') \<Longrightarrow>
     packet s' = packet s \<and> flight_data s' = flight_data s"
  by (auto simp: transmit_def Let_def split: sum.splits prod.splits dest: radio_cmd_keeps)

lemma write_to_sd_keeps:
  "write_to_sd io l s = (r, s') \<Longrightarrow> packet s' = packet s"
  by (auto simp: write_to_sd_def split: option.splits if_splits)

lemma retry_transmitter_keeps:
  "retry_transmitter e s = (r, s') \<Longrightarrow>
     packet s' = packet s \<and> SD_INITIALIZED s' = SD_INITIALIZED s
     \<and> flight_data s' = flight_data s \<and> radio_out s' = radio_out s"
  by (auto simp: retry_transmitter_def init_transmitter_def lookup_local_def
      split: option.splits if_splits prod.splits sum.splits)

lemma read_bmp_keeps:
  "read_bmp e s = (r, s') \<Longrightarrow>
     packet s' = packet s \<and> SD_INITIALIZED s' = SD_INITIALIZED s
     \<and> flight_data s' = flight_data s \<and> radio_out s' = radio_out s"
  by (auto simp: read_bmp_def lookup_def Let_def
      split: option.splits if_splits sum.splits binding.splits)

lemma read_gps_keeps:
  "read_gps e s = (r, s') \<Longrightarrow>
     packet s' = packet s \<and> SD_INITIALIZED s' = SD_INITIALIZED s
     \<and> flight_data s' = flight_data s \<and> radio_out s' = radio_out s"
  by (auto simp: read_gps_def lookup_def
      split: option.splits if_splits sum.splits binding.splits)

lemma acquire_keeps:
  assumes "acquire e s = (r, s')"
  shows "packet s' = packet s + 1 \<and> SD_INITIALIZED s' = SD_INITIALIZED s
         \<and> flight_data s' = flight_data s \<and> radio_out s' = radio_out s"
  using assms
  by (auto simp: acquire_def Let_def split: prod.splits sum.splits
      dest!: retry_transmitter_keeps read_bmp_keeps read_gps_keeps)

lemma read_fields_sequence: "read_fields s = Inr t \<Longrightarrow> sequence t = packet s"
  by (auto simp: read_fields_def split: sum.splits)

lemma acquire_sequence:
  assumes "acquire e s = (Inr t, s')"
  shows "sequence t = packet s + 1"
proof -
  from assms have "read_fields s' = Inr t"
    by (auto simp: acquire_def Let_def split: prod.splits sum.splits)
  then have "sequence t = packet s'" by (rule read_fields_sequence)
  with acquire_keeps[OF assms] show ?thesis by simp
qed

lemma log_and_transmit_keeps:
  "log_and_transmit e t s = (r, s') \<Longrightarrow> packet s' = packet s"
  by (auto simp: log_and_transmit_def split: prod.splits sum.splits
      dest!: write_to_sd_keeps transmit_keeps)

lemma log_and_transmit_tele:
  "log_and_transmit e t s = (Inr out, s') \<Longrightarrow> tele out = t"
  by (auto simp: log_and_transmit_def transmit_def Let_def split: prod.splits sum.splits)

lemma cycle_packet: "cycle e s = (r, s') \<Longrightarrow> packet s' = packet s + 1"
  by (auto simp: cycle_def split: prod.splits sum.splits
      dest!: acquire_keeps log_and_transmit_keeps)

lemma cycle_sequence: "cycle e s = (Inr out, s') \<Longrightarrow> sequence (tele out) = packet s + 1"
  by (auto simp: cycle_def split: prod.splits sum.splits
      dest!: acquire_sequence log_and_transmit_tele)

lemma startup_packet: "startup se s0 = (Inr u, s) \<Longrightarrow> packet s = 0"
  by (auto simp: startup_def Let_def split: prod.splits sum.splits option.splits if_splits)

lemma run_loop_sequence:
  "run_loop es s = (outs, r, s') \<Longrightarrow>
     map (\<lambda>out. sequence (tele out)) outs = map (\<lambda>i. packet s + 1 + int i) [0..<length outs]
     \<and> packet s' = packet s + int (length outs) + (if r = None then 0 else 1)"
proof (induction es arbitrary: s outs r s')
  case Nil
  then show ?case by simp
next
  case (Cons e es)
  obtain c s1 where c: "cycle e s = (c, s1)" by (cases "cycle e s")
  show ?case
  proof (cases c)
    case (Inl x)
    with c Cons.prems have "outs = []" "r = Some x" "s' = s1" by simp_all
    with cycle_packet[OF c] show ?thesis by simp
  next
    case (Inr out)
    obtain outs1 r1 s2 where rl: "run_loop es s1 = (outs1, r1, s2)"
      by (cases "run_loop es s1")
    with c Inr Cons.prems have eqs: "outs = out # outs1" "r = r1" "s' = s2" by simp_all
    from c Inr have seq: "sequence (tele out) = packet s + 1"
      by (simp add: cycle_sequence)
    from cycle_packet[OF c] have p1: "packet s1 = packet s + 1" .
    from Cons.IH[OF rl] p1 have
      ih1: "map (\<lambda>out. sequence (tele out)) outs1
              = map (\<lambda>i. packet s + 1 + 1 + int i) [0..<length outs1]"
      and ih2: "packet s2 = packet s + 1 + int (length outs1) + (if r1 = None then 0 else 1)"
      by simp_all
    have "map (\<lambda>i. packet s + 1 + int i) [0..<length (out # outs1)]
          = (packet s + 1) # map (\<lambda>i. packet s + 1 + 1 + int i) [0..<length outs1]"
      by (simp add: upt_conv_Cons map_Suc_upt[symmetric] del: upt_Suc)
    with seq ih1 ih2 eqs show ?thesis by simp
  qed
qed

lemma cycle_out_parts:
  assumes "cycle e s = (Inr out, s')"
  shows "\<exists>s1. acquire e s = (Inr (tele out), s1)"
    and "msg out = format_msg (tele out)"
    and "sd_line out = format_sd_line (tele out)"
  using assms
  by (auto simp: cycle_def log_and_transmit_def transmit_def Let_def
      split: prod.splits sum.splits)

subsection \<open>The GPS field is never the empty string\<close>

lemma digits_nonempty: "digits n \<noteq> []"
  by (subst digits.simps) simp

lemma format_fix_nonempty: "format_fix d \<noteq> []"
  by (cases "latitude d") (simp add: format_fix_def format_f_def Let_def digits_nonempty)

lemma get_gps_data_nonempty: "get_gps_data polls parse = Inr (Some g) \<Longrightarrow> g \<noteq> []"
  by (auto simp: get_gps_data_def gps_body_def format_fix_nonempty split: sum.splits if_splits)

lemma read_gps_nonempty:
  "read_gps e s = (Inr u, s') \<Longrightarrow> gps_data s' \<noteq> Unbound \<and> gps_data s' \<noteq> Bound (Some [])"
  by (auto simp: read_gps_def lookup_def split: if_splits sum.splits binding.splits
      dest: get_gps_data_nonempty)

lemma read_fields_gps: "read_fields s = Inr t \<Longrightarrow> gps_data s = Bound (rec_gps_data t)"
  by (auto simp: read_fields_def lookup_def split: sum.splits binding.splits)

lemma acquire_gps_nonempty:
  assumes "acquire e s = (Inr t, s')"
  shows "rec_gps_data t \<noteq> Some []"
proof -
  from assms obtain s3 u where "read_gps e s3 = (Inr u, s')" and "read_fields s' = Inr t"
    by (auto simp: acquire_def Let_def split: prod.splits sum.splits)
  with read_gps_nonempty read_fields_gps show ?thesis by fastforce
qed

lemma format_sd_line_eq: "rec_gps_data t \<noteq> Some [] \<Longrightarrow> format_sd_line t = format_msg t"
  by (auto simp: format_sd_line_def format_msg_def str_opt_def split: option.splits)



text \<open>
  The sibling initialiser \<open>init_bmp\<close> returns \<open>None\<close> when the sensor cannot be opened, and
  a failing storage write or GPS read leaves the cycle running.
\<close>

lemma init_bmp_failure_returns:
  "init_bmp (Some x) c s = (Inr None, s\<lparr>BMP_INITIALIZED := False\<rparr>)"
  by (simp add: init_bmp_def lookup_local_def)

lemma storage_and_gps_failures_absorbed:
  "fst (cycle env_sd_fails ready)
     = Inr \<lparr>tele = \<lparr>sequence = 1, rec_pressure = PFloat (Dec False 101325 2),
                     rec_altitude = PFloat (Dec False 12345 2), rec_gps_data = None\<rparr>,
            msg = lit ''1#1013.25#123.45#None'', sd_line = lit ''1#1013.25#123.45#None'',
            logged = False, response = None, sent = False\<rparr>"
  "fst (cycle env_gps_fails ready)
     = Inr \<lparr>tele = \<lparr>sequence = 1, rec_pressure = PFloat (Dec False 101325 2),
                     rec_altitude = PFloat (Dec False 12345 2), rec_gps_data = None\<rparr>,
            msg = lit ''1#1013.25#123.45#None'', sd_line = lit ''1#1013.25#123.45#None'',
            logged = True, response = None, sent = False\<rparr>"
  by (simp_all add: eval_cycle eval_env eval_fmt)

text \<open>
  Without the barometer and with \<open>pressure\<close> never assigned, no cycle assembles a record,
  whatever the peripherals do.
\<close>

lemma retry_transmitter_pressure:
  "retry_transmitter e s = (r, s') \<Longrightarrow>
     pressure s' = pressure s \<and> BMP_INITIALIZED s' = BMP_INITIALIZED s"
  by (auto simp: retry_transmitter_def init_transmitter_def lookup_local_def
      split: option.splits if_splits prod.splits sum.splits)

lemma read_gps_pressure:
  "read_gps e s = (r, s') \<Longrightarrow> pressure s' = pressure s"
  by (auto simp: read_gps_def lookup_def
      split: option.splits if_splits sum.splits binding.splits)

lemma no_barometer_never_assembles:
  assumes "\<not> BMP_INITIALIZED s" and "pressure s = Unbound"
  shows "\<exists>x. fst (cycle e s) = Inl x"
proof -
  have "\<exists>x. fst (acquire e s) = Inl x"
    using assms
    by (auto simp: acquire_def Let_def read_bmp_def read_fields_def lookup_def
        split: prod.splits sum.splits
        dest!: retry_transmitter_pressure read_gps_pressure)
  then show ?thesis
    by (auto simp: cycle_def split: prod.splits sum.splits)
qed

section \<open>The claims\<close>

text \<open>
  C1 (the code diverges from the claim): a barometer read that raises, and a radio write
  that raises, each leave the cycle as an exception and end the loop; the cycle after the
  failing one never runs.
\<close>

theorem barometer_or_radio_failure_ends_loop:
  "fst (cycle env_bmp_fails ready) = Inl (OSError ''EIO'')
   \<and> fst (cycle env_radio_fails ready) = Inl (OSError ''EIO'')
   \<and> fst (run_loop [env_bmp_fails, env_quiet] ready) = []
   \<and> fst (snd (run_loop [env_bmp_fails, env_quiet] ready)) = Some (OSError ''EIO'')"
  by (simp add: eval_cycle eval_env eval_fmt)

text \<open>
  C2 (the code diverges from the claim): when the construction of the UART raises,
  \<open>init_transmitter\<close> and \<open>init_gps\<close> set their flag to \<open>False\<close> and then raise
  \<open>UnboundLocalError\<close> at their \<open>return\<close>; at start-up and in the loop's retry the
  exception ends the process.
\<close>

theorem open_failure_raises:
  "init_transmitter (Some x) s
     = (Inl (UnboundLocalError ''uart_transmitter''), s\<lparr>TRANSMITTER_INITIALIZED := False\<rparr>)
   \<and> init_gps (Some x) s
     = (Inl (UnboundLocalError ''gps_module''), s\<lparr>GPS_INITIALIZED := False\<rparr>)
   \<and> fst (startup startup_no_radio (module_state []))
     = Inl (UnboundLocalError ''uart_transmitter'')
   \<and> fst (cycle (env_quiet\<lparr>tx_ctor := Some x\<rparr>) (ready\<lparr>TRANSMITTER_INITIALIZED := False\<rparr>))
     = Inl (UnboundLocalError ''uart_transmitter'')"
  by (simp add: eval_startup eval_cycle eval_env)

text \<open>
  C3 (the code diverges from the claim): after a start-up in which the barometer did not
  come up, the first cycle raises \<open>NameError\<close> for \<open>pressure\<close> instead of assembling a
  record with pressure and altitude absent.
\<close>

theorem no_barometer_cycle_raises:
  "fst (startup startup_no_bmp (module_state [])) = Inr ()
   \<and> (snd (startup startup_no_bmp (module_state [])))\<lparr>radio_out := []\<rparr> = ready_no_bmp
   \<and> pressure ready_no_bmp = Unbound
   \<and> fst (cycle env_quiet ready_no_bmp) = Inl (NameError ''pressure'')"
  by (simp add: eval_startup eval_cycle eval_env eval_fmt)

text \<open>
  C4 (counterexample): in the third cycle, with the barometer reporting 1013.25 and 123.45
  and no GPS fix, the radio payload is \<open>3#1013.25#123.45#None\<close>: the absent fix is the
  literal \<open>None\<close> in the radio payload too, and the storage line is the same string.
\<close>

theorem radio_payload_None_counterexample:
  "fst (cycle env_quiet (ready\<lparr>packet := 2\<rparr>))
     = Inr \<lparr>tele = \<lparr>sequence = 3, rec_pressure = PFloat (Dec False 101325 2),
                     rec_altitude = PFloat (Dec False 12345 2), rec_gps_data = None\<rparr>,
            msg = lit ''3#1013.25#123.45#None'', sd_line = lit ''3#1013.25#123.45#None'',
            logged = True, response = None, sent = False\<rparr>"
  by (simp add: eval_cycle eval_env eval_fmt)

text \<open>
  C4 (amended): in every cycle that completes, the storage line and the radio payload are
  the same string \<open>seq#pressure#altitude#gps\<close>, in which an absent altitude and an absent
  GPS fix are the literal \<open>None\<close>.
\<close>

theorem serializations_agree:
  assumes "cycle e s = (Inr out, s')"
  shows "sd_line out = msg out
     \<and> msg out = str_int (sequence (tele out)) @ lit ''#'' @ str_val (rec_pressure (tele out))
          @ lit ''#'' @ str_val (rec_altitude (tele out)) @ lit ''#''
          @ str_opt (rec_gps_data (tele out))
     \<and> str_val PNone = lit ''None'' \<and> str_opt None = lit ''None''"
proof -
  from cycle_out_parts[OF assms] obtain s1 where
    a: "acquire e s = (Inr (tele out), s1)" and m: "msg out = format_msg (tele out)"
    and l: "sd_line out = format_sd_line (tele out)" by blast
  from acquire_gps_nonempty[OF a] have "format_sd_line (tele out) = format_msg (tele out)"
    by (rule format_sd_line_eq)
  with m l show ?thesis by (simp add: format_msg_def str_val_def str_opt_def)
qed

theorem serializations_agree_witness:
  "sd_line (projr (fst (cycle env_quiet (ready\<lparr>packet := 2\<rparr>)))) = lit ''3#1013.25#123.45#None''
   \<and> msg (projr (fst (cycle env_quiet (ready\<lparr>packet := 2\<rparr>)))) = lit ''3#1013.25#123.45#None''"
proof -
  let ?c = "cycle env_quiet (ready\<lparr>packet := 2\<rparr>)"
  have f: "fst ?c
     = Inr \<lparr>tele = \<lparr>sequence = 3, rec_pressure = PFloat (Dec False 101325 2),
                     rec_altitude = PFloat (Dec False 12345 2), rec_gps_data = None\<rparr>,
            msg = lit ''3#1013.25#123.45#None'', sd_line = lit ''3#1013.25#123.45#None'',
            logged = True, response = None, sent = False\<rparr>"
    by (simp add: eval_cycle eval_env eval_fmt)
  then have h: "?c = (Inr (projr (fst ?c)), snd ?c)"
    by (metis prod.collapse sum.sel(2))
  from serializations_agree[OF h] have "sd_line (projr (fst ?c)) = msg (projr (fst ?c))"
    by blast
  with f show ?thesis by simp
qed

text \<open>
  C5: after any start-up that reaches the loop, and whatever the peripherals do, the
  records of the completed cycles carry the sequence numbers 1, 2, 3, ... in order; the
  counter is incremented even in a cycle that an exception ends.
\<close>

theorem sequence_counts_cycles:
  assumes "startup se s0 = (Inr (), s)" and "run_loop es s = (outs, r, s')"
  shows "map (\<lambda>out. sequence (tele out)) outs = map (\<lambda>i. int i + 1) [0..<length outs]
     \<and> packet s' = int (length outs) + (if r = None then 0 else 1)"
proof -
  from assms(1) have "packet s = 0" by (rule startup_packet)
  with run_loop_sequence[OF assms(2)] show ?thesis by (simp add: add.commute)
qed

theorem sequence_counts_cycles_witness:
  "map (\<lambda>out. sequence (tele out))
      (fst (run_loop [env_quiet, env_fix, env_bmp_fails, env_quiet]
             (snd (startup startup_all_ok (module_state []))))) = [1, 2]
   \<and> packet (snd (snd (run_loop [env_quiet, env_fix, env_bmp_fails, env_quiet]
             (snd (startup startup_all_ok (module_state [])))))) = 3"
proof -
  obtain sent0 where
    st: "startup startup_all_ok (module_state []) = (Inr (), ready\<lparr>radio_out := sent0\<rparr>)"
    using startup_all_ok_state by blast
  define R where
    "R = run_loop [env_quiet, env_fix, env_bmp_fails, env_quiet] (ready\<lparr>radio_out := sent0\<rparr>)"
  have len: "length (fst R) = 2" and err: "fst (snd R) = Some (OSError ''EIO'')"
    unfolding R_def by (simp_all add: eval_cycle eval_env eval_fmt)
  have rl: "run_loop [env_quiet, env_fix, env_bmp_fails, env_quiet] (ready\<lparr>radio_out := sent0\<rparr>)
              = (fst R, fst (snd R), snd (snd R))"
    unfolding R_def by (simp only: prod.collapse)
  have two: "map (\<lambda>i. int i + 1) [0..<2] = [1, 2]"
    by (simp add: upt_rec)
  from sequence_counts_cycles[OF st rl]
  have "map (\<lambda>out. sequence (tele out)) (fst R) = [1, 2] \<and> packet (snd (snd R)) = 3"
    unfolding len err two by simp
  then show ?thesis unfolding R_def st[symmetric, THEN arg_cong[of _ _ snd], simplified] .
qed

text \<open>
  C6: the acknowledgement is detected exactly when a response was received and it
  contains \<open>+OK\<close> or equals \<open>OK\<close>; \<open>+OK=2,5\<close> is acknowledged, \<open>ERROR\<close> and no response
  are not.
\<close>

theorem acknowledged_iff:
  "(acknowledged resp \<longleftrightarrow>
      (\<exists>r. resp = Some r \<and> ((\<exists>p q. r = p @ lit ''+OK'' @ q) \<or> r = lit ''OK'')))
   \<and> acknowledged (Some (lit ''+OK=2,5''))
   \<and> \<not> acknowledged (Some (lit ''ERROR''))
   \<and> \<not> acknowledged None"
proof -
  have nonempty: "r \<noteq> []" if "(\<exists>p q. r = p @ lit ''+OK'' @ q) \<or> r = lit ''OK''" for r
    using that by (auto simp: lit_def)
  have "acknowledged resp \<longleftrightarrow>
      (\<exists>r. resp = Some r \<and> ((\<exists>p q. r = p @ lit ''+OK'' @ q) \<or> r = lit ''OK''))"
    using nonempty by (cases resp) (auto simp: acknowledged_def contains_iff)
  moreover have "acknowledged (Some (lit ''+OK=2,5''))"
    by (simp add: acknowledged_def lit_def)
  moreover have "\<not> acknowledged (Some (lit ''ERROR''))"
    by (simp add: acknowledged_def lit_def)
  moreover have "\<not> acknowledged None"
    by (simp add: acknowledged_def)
  ultimately show ?thesis by blast
qed



text \<open>
  The write of \<open>send_cmd\<close>: once its first print, the encoding and \<open>uart.write\<close> have
  gone through, the line is on the transmitter UART, whatever the rest of the call does.
\<close>

lemma send_cmd_writes:
  assumes "(if debug then print_sending io else None) = None"
    and "encode (cmd @ [13, 10]) = Inr line" and "write_result io = None"
  shows "radio_out (snd (send_cmd io cmd w debug s)) = radio_out s @ [line]"
  using assms
  by (auto simp: send_cmd_def Let_def response_handler_def
      split: sum.splits option.splits if_splits)

lemma transmit_writes:
  assumes "uart_transmitter s = Bound h" and "print_sending (radio e) = None"
    and "encode (lit ''AT+SEND=2,'' @ str_int (int (length (format_msg t))) @ lit '',''
                 @ format_msg t @ [13, 10]) = Inr line"
    and "write_result (radio e) = None"
  shows "radio_out (snd (transmit e t ok s)) = radio_out s @ [line]"
proof -
  let ?cmd = "lit ''AT+SEND=2,'' @ str_int (int (length (format_msg t))) @ lit '','' @ format_msg t"
  have "radio_out (snd (send_cmd (radio e) ?cmd True True s)) = radio_out s @ [line]"
    by (rule send_cmd_writes) (use assms in simp_all)
  then show ?thesis
    using assms(1)
    by (auto simp: transmit_def radio_cmd_def lookup_def Let_def split: prod.splits sum.splits)
qed

text \<open>
  C8: when storage is not mounted, \<open>write_to_sd\<close> returns \<open>False\<close> and changes nothing,
  the log file is the same after the cycle as before it, and a cycle that assembled its
  record goes on to the transmit step (with the record marked as not logged): the
  \<open>AT+SEND\<close> line built from the record is written to the transmitter UART in that same
  cycle.
\<close>

theorem unmounted_storage:
  assumes "\<not> SD_INITIALIZED s"
  shows "write_to_sd io l s = (Inr False, s)
    \<and> flight_data (snd (cycle e s)) = flight_data s
    \<and> (acquire e s = (Inr t, s1) \<longrightarrow> cycle e s = transmit e t False s1)
    \<and> (acquire e s = (Inr t, s1) \<and> uart_transmitter s1 = Bound h
         \<and> print_sending (radio e) = None
         \<and> encode (lit ''AT+SEND=2,'' @ str_int (int (length (format_msg t))) @ lit '',''
                    @ format_msg t @ [13, 10]) = Inr line
         \<and> write_result (radio e) = None
        \<longrightarrow> radio_out (snd (cycle e s)) = radio_out s @ [line])"
proof -
  have w: "write_to_sd io' l' s'' = (Inr False, s'')" if "\<not> SD_INITIALIZED s''" for io' l' s''
    using that by (simp add: write_to_sd_def)
  obtain r1 s1' where a: "acquire e s = (r1, s1')" by (cases "acquire e s")
  from acquire_keeps[OF a] assms have k: "\<not> SD_INITIALIZED s1'" "flight_data s1' = flight_data s"
    "radio_out s1' = radio_out s"
    by simp_all
  have c: "cycle e s = transmit e t False s1" if "acquire e s = (Inr t, s1)"
    using that a k by (simp add: cycle_def log_and_transmit_def w)
  have f: "flight_data (snd (cycle e s)) = flight_data s"
  proof (cases r1)
    case (Inl x)
    with a k show ?thesis by (simp add: cycle_def)
  next
    case (Inr t')
    with a have "cycle e s = transmit e t' False s1'"
      by (simp add: cycle_def log_and_transmit_def w k)
    moreover obtain r2 s2 where tr: "transmit e t' False s1' = (r2, s2)"
      by (cases "transmit e t' False s1'")
    ultimately show ?thesis using transmit_keeps[OF tr] k by simp
  qed
  have d: "radio_out (snd (cycle e s)) = radio_out s @ [line]"
    if q: "acquire e s = (Inr t, s1)" "uart_transmitter s1 = Bound h"
      "print_sending (radio e) = None"
      "encode (lit ''AT+SEND=2,'' @ str_int (int (length (format_msg t))) @ lit '',''
                    @ format_msg t @ [13, 10]) = Inr line"
      "write_result (radio e) = None"
  proof -
    from q(1) a k have "radio_out s1 = radio_out s" by simp
    moreover have "radio_out (snd (transmit e t False s1)) = radio_out s1 @ [line]"
      using q(2-5) by (rule transmit_writes)
    ultimately show ?thesis using c[OF q(1)] by simp
  qed
  from w[OF assms] c f d show ?thesis by blast
qed

theorem unmounted_storage_witness:
  "\<not> SD_INITIALIZED ready_no_sd
   \<and> write_to_sd None (lit ''1#1013.25#123.45#None'') ready_no_sd = (Inr False, ready_no_sd)
   \<and> flight_data (snd (cycle env_quiet ready_no_sd)) = []
   \<and> cycle env_quiet ready_no_sd
       = transmit env_quiet
           \<lparr>sequence = 1, rec_pressure = PFloat (Dec False 101325 2),
            rec_altitude = PFloat (Dec False 12345 2), rec_gps_data = None\<rparr>
           False (snd (acquire env_quiet ready_no_sd))
   \<and> radio_out ready_no_sd = []
   \<and> radio_out (snd (cycle env_quiet ready_no_sd))
       = [lit ''AT+SEND=2,21,1#1013.25#123.45#None'' @ [13, 10]]"
proof -
  let ?t = "\<lparr>sequence = 1, rec_pressure = PFloat (Dec False 101325 2),
            rec_altitude = PFloat (Dec False 12345 2), rec_gps_data = None\<rparr>"
  let ?line = "lit ''AT+SEND=2,21,1#1013.25#123.45#None'' @ [13, 10]"
  have h: "\<not> SD_INITIALIZED ready_no_sd" by (simp add: eval_env)
  have a: "fst (acquire env_quiet ready_no_sd) = Inr ?t"
    by (simp add: eval_cycle eval_env eval_fmt)
  then have a': "acquire env_quiet ready_no_sd = (Inr ?t, snd (acquire env_quiet ready_no_sd))"
    by (metis prod.collapse)
  have f: "flight_data ready_no_sd = []" and ro: "radio_out ready_no_sd = []"
    by (simp_all add: eval_env)
  have u: "uart_transmitter (snd (acquire env_quiet ready_no_sd)) = Bound (UART 0)"
    by (simp add: eval_cycle eval_env eval_fmt)
  have pr: "print_sending (radio env_quiet) = None" "write_result (radio env_quiet) = None"
    by (simp_all add: eval_env)
  have en: "encode (lit ''AT+SEND=2,'' @ str_int (int (length (format_msg ?t))) @ lit '',''
                    @ format_msg ?t @ [13, 10]) = Inr ?line"
    by (simp add: format_msg_def eval_fmt encode_cp_def)
  note r = unmounted_storage[OF h, of None "lit ''1#1013.25#123.45#None''" env_quiet ?t
      "snd (acquire env_quiet ready_no_sd)" "UART 0" ?line]
  from r have w: "write_to_sd None (lit ''1#1013.25#123.45#None'') ready_no_sd
                    = (Inr False, ready_no_sd)" by blast
  from r have "flight_data (snd (cycle env_quiet ready_no_sd)) = flight_data ready_no_sd"
    by blast
  with f have k: "flight_data (snd (cycle env_quiet ready_no_sd)) = []" by (simp only:)
  from r a' have c: "cycle env_quiet ready_no_sd
       = transmit env_quiet ?t False (snd (acquire env_quiet ready_no_sd))" by blast
  from r a' u pr en have "radio_out (snd (cycle env_quiet ready_no_sd))
       = radio_out ready_no_sd @ [?line]" by blast
  with ro have s: "radio_out (snd (cycle env_quiet ready_no_sd)) = [?line]" by (simp only: append_Nil)
  from h w k c ro s show ?thesis by blast
qed






end
